theory Spec2Isabelle
  imports Main "HOL-Library.While_Combinator"
begin

section \<open>Errors\<close>

text \<open>The Python exceptions that the modelled code can raise.\<close>

datatype error = AssertionError | KeyError | IndexError

section \<open>databank.py: objects and transitions\<close>

text \<open>
  Class \<open>Object\<close>. The list \<open>category_contains\<close> holds object references in
  the source; the graph code reads only their \<open>identifier\<close>, so the model keeps the
  identifiers.
\<close>

record Object =
  "identifier" :: int
  name :: string
  is_natural :: bool
  is_category :: bool
  category_contains :: "int list"

datatype TransitionType = T_NATURAL | T_BARE_HANDS | T_INTERACT | T_DROP | T_CRAFT

text \<open>Class \<open>Transition\<close>, with the fields that the graph code reads.\<close>

record Transition =
  actor :: int
  target :: int
  new_actor :: int
  new_target :: int
  auto_decay_seconds :: int
  ttype :: TransitionType

text \<open>\<open>Transition.__init__\<close>: the type is derived from the sentinels, under assertions.\<close>

definition Transition_init :: "int \<Rightarrow> int \<Rightarrow> int \<Rightarrow> int \<Rightarrow> int \<Rightarrow> error + Transition" where
  "Transition_init a t na nt decay =
     (let ty = (if a = - 1 then T_NATURAL
                else if a = 0 then T_BARE_HANDS
                else if a = - 2 then T_INTERACT
                else if t = - 1 then T_DROP
                else T_CRAFT) in
      if (a = - 1 \<or> a = 0 \<or> a = - 2) \<and> \<not> 0 < t then Inl AssertionError
      else if ty = T_DROP \<and> \<not> 0 < a then Inl AssertionError
      else if (ty = T_NATURAL) \<noteq> (decay \<noteq> 0) then Inl AssertionError
      else Inr \<lparr>actor = a, target = t, new_actor = na, new_target = nt,
                auto_decay_seconds = decay, ttype = ty\<rparr>)"

definition get_input_objects :: "Transition \<Rightarrow> int list" where
  "get_input_objects tr =
     (if 0 < actor tr then [actor tr] else []) @ (if 0 < target tr then [target tr] else [])"

definition get_output_objects :: "Transition \<Rightarrow> int list" where
  "get_output_objects tr =
     (if 0 < new_actor tr then [new_actor tr] else []) @
     (if 0 < new_target tr then [new_target tr] else [])"

section \<open>graph.py: nodes and edges\<close>

definition DEFAULT_COMPLEXITY :: int where
  "DEFAULT_COMPLEXITY = 9999999999"

text \<open>The two node classes; the last argument is the field \<open>complexity\<close>.\<close>

datatype GraphNode = NodeObject Object int | NodeTransition Transition int

fun complexity :: "GraphNode \<Rightarrow> int" where
  "complexity (NodeObject ob c) = c"
| "complexity (NodeTransition tr c) = c"

fun is_object :: "GraphNode \<Rightarrow> bool" where
  "is_object (NodeObject ob c) = True"
| "is_object (NodeTransition tr c) = False"

definition NodeObject_init :: "Object \<Rightarrow> error + GraphNode" where
  "NodeObject_init ob =
     (if identifier ob < DEFAULT_COMPLEXITY
      then Inr (NodeObject ob (if is_natural ob then 0 else DEFAULT_COMPLEXITY))
      else Inl AssertionError)"

definition NodeTransition_init :: "Transition \<Rightarrow> GraphNode" where
  "NodeTransition_init tr = NodeTransition tr (- 1)"

text \<open>
  \<open>update_complexity\<close> of both classes: the node after the call, and the returned flag
  (True if the caller should propagate).
\<close>

fun update_complexity :: "GraphNode \<Rightarrow> int \<Rightarrow> error + (GraphNode \<times> bool)" where
  "update_complexity (NodeObject ob c) incoming =
     (if \<not> incoming < DEFAULT_COMPLEXITY then Inl AssertionError
      else if c > incoming then Inr (NodeObject ob incoming, True)
      else Inr (NodeObject ob c, False))"
| "update_complexity (NodeTransition tr c) incoming =
     (if \<not> incoming < DEFAULT_COMPLEXITY then Inl AssertionError
      else if c = - 1 then Inr (NodeTransition tr incoming, length (get_input_objects tr) = 1)
      else Inr (NodeTransition tr (max c incoming), True))"

datatype EdgeType = NATURAL | BARE_HANDS | INTERACT | DROP | CONSUME | TOOL | TRANSITION
  | CATEGORY | OTHER

record Edge =
  from_node :: nat
  to_node :: nat
  category :: EdgeType
  transition :: "Transition option"
  looping :: bool

definition Edge_init :: "nat \<Rightarrow> nat \<Rightarrow> EdgeType \<Rightarrow> Transition option \<Rightarrow> Edge" where
  "Edge_init f t c tr =
     \<lparr>from_node = f, to_node = t, category = c, transition = tr, looping = False\<rparr>"

definition cost :: "Edge \<Rightarrow> int" where
  "cost e = (if category e = NATURAL \<or> category e = TRANSITION then 0 else 1)"

definition transition_type_to_edge_type :: "TransitionType \<Rightarrow> error + EdgeType" where
  "transition_type_to_edge_type tt =
     (let edge_type = (case tt of T_NATURAL \<Rightarrow> NATURAL | T_BARE_HANDS \<Rightarrow> BARE_HANDS
                        | T_INTERACT \<Rightarrow> INTERACT | T_DROP \<Rightarrow> DROP | T_CRAFT \<Rightarrow> CONSUME) in
      if edge_type \<noteq> OTHER then Inr edge_type else Inl AssertionError)"

section \<open>graph.py: class Graph\<close>

record Graph =
  nodes :: "GraphNode list"
  edges :: "Edge list"
  incoming_edges :: "nat list list"
  out_edges :: "nat list list"
  obj_to_node :: "int \<rightharpoonup> nat"

definition empty_graph :: Graph where
  "empty_graph = \<lparr>nodes = [], edges = [], incoming_edges = [], out_edges = [],
                   obj_to_node = Map.empty\<rparr>"

subsection \<open>\<open>_create\<close>\<close>

text \<open>First loop: one object node for every object with a positive identifier.\<close>

fun create_nodes :: "Object list \<Rightarrow> Graph \<Rightarrow> error + Graph" where
  "create_nodes [] g = Inr g"
| "create_nodes (ob # obs) g =
     (if 0 < identifier ob then
        (case NodeObject_init ob of
           Inl e \<Rightarrow> Inl e
         | Inr n \<Rightarrow> create_nodes obs
             (g\<lparr>obj_to_node := (obj_to_node g)(identifier ob \<mapsto> length (nodes g)),
                nodes := nodes g @ [n]\<rparr>))
      else create_nodes obs g)"

text \<open>Second loop: the category edges; a missing key raises KeyError.\<close>

fun create_category_edges_of :: "int \<Rightarrow> int list \<Rightarrow> Graph \<Rightarrow> error + Graph" where
  "create_category_edges_of cat [] g = Inr g"
| "create_category_edges_of cat (contains # rest) g =
     (case obj_to_node g contains of
        None \<Rightarrow> Inl KeyError
      | Some f \<Rightarrow>
          (case obj_to_node g cat of
             None \<Rightarrow> Inl KeyError
           | Some t \<Rightarrow> create_category_edges_of cat rest
               (g\<lparr>edges := edges g @ [Edge_init f t CATEGORY None]\<rparr>)))"

fun create_category_edges :: "Object list \<Rightarrow> Graph \<Rightarrow> error + Graph" where
  "create_category_edges [] g = Inr g"
| "create_category_edges (ob # obs) g =
     (case create_category_edges_of (identifier ob) (category_contains ob) g of
        Inl e \<Rightarrow> Inl e
      | Inr g' \<Rightarrow> create_category_edges obs g')"

text \<open>Third loop: one node per transition, its output edges, then its input edges.\<close>

fun create_output_edges :: "nat \<Rightarrow> int list \<Rightarrow> int list \<Rightarrow> Graph \<Rightarrow> error + Graph" where
  "create_output_edges node inputs [] g = Inr g"
| "create_output_edges node inputs (output # rest) g =
     (if output \<notin> set inputs then
        (case obj_to_node g output of
           None \<Rightarrow> Inl KeyError
         | Some t \<Rightarrow> create_output_edges node inputs rest
             (g\<lparr>edges := edges g @ [Edge_init node t TRANSITION None]\<rparr>))
      else create_output_edges node inputs rest g)"

fun create_input_edges :: "nat \<Rightarrow> Transition \<Rightarrow> int list \<Rightarrow> int list \<Rightarrow> Graph \<Rightarrow> error + Graph"
  where
  "create_input_edges node tr outputs [] g = Inr g"
| "create_input_edges node tr outputs (input # rest) g =
     (case transition_type_to_edge_type (ttype tr) of
        Inl e \<Rightarrow> Inl e
      | Inr et \<Rightarrow>
          (let edge_type = (if et = CONSUME \<and> input \<in> set outputs then TOOL else et) in
           case obj_to_node g input of
             None \<Rightarrow> Inl KeyError
           | Some f \<Rightarrow> create_input_edges node tr outputs rest
               (g\<lparr>edges := edges g @ [Edge_init f node edge_type (Some tr)]\<rparr>)))"

fun create_transitions :: "Transition list \<Rightarrow> Graph \<Rightarrow> error + Graph" where
  "create_transitions [] g = Inr g"
| "create_transitions (tr # trs) g =
     (let node = length (nodes g);
          g1 = g\<lparr>nodes := nodes g @ [NodeTransition_init tr]\<rparr>;
          outputs = get_output_objects tr;
          inputs = get_input_objects tr in
      case create_output_edges node inputs outputs g1 of
        Inl e \<Rightarrow> Inl e
      | Inr g2 \<Rightarrow>
          (case create_input_edges node tr outputs inputs g2 of
             Inl e \<Rightarrow> Inl e
           | Inr g3 \<Rightarrow> create_transitions trs g3))"

text \<open>
  The dictionary \<open>objects\<close> is an association list in insertion order;
  \<open>objects.values()\<close> is its list of values.
\<close>

definition create :: "(int \<times> Object) list \<Rightarrow> Transition list \<Rightarrow> Graph \<Rightarrow> error + Graph" where
  "create objects transitions g =
     (case create_nodes (map snd objects) g of
        Inl e \<Rightarrow> Inl e
      | Inr g1 \<Rightarrow>
          (case create_category_edges (map snd objects) g1 of
             Inl e \<Rightarrow> Inl e
           | Inr g2 \<Rightarrow> create_transitions transitions g2))"

subsection \<open>\<open>_finish_computation\<close>: the adjacency indices\<close>

fun index_edges :: "nat \<Rightarrow> Edge list \<Rightarrow> nat list list \<times> nat list list
    \<Rightarrow> error + (nat list list \<times> nat list list)" where
  "index_edges i [] (inc, out) = Inr (inc, out)"
| "index_edges i (e # es) (inc, out) =
     (if from_node e < length out then
        (if to_node e < length inc then
           index_edges (Suc i) es
             (inc[to_node e := inc ! to_node e @ [i]], out[from_node e := out ! from_node e @ [i]])
         else Inl IndexError)
      else Inl IndexError)"

definition update_edge_indices :: "Graph \<Rightarrow> error + Graph" where
  "update_edge_indices g =
     (case index_edges 0 (edges g)
             (replicate (length (nodes g)) [], replicate (length (nodes g)) []) of
        Inl e \<Rightarrow> Inl e
      | Inr (inc, out) \<Rightarrow> Inr (g\<lparr>incoming_edges := inc, out_edges := out\<rparr>))"

subsection \<open>\<open>__propagate_complexity\<close>\<close>

text \<open>
  The work-set \<open>to_visit\<close> is a Python set, and \<open>set.pop()\<close> removes an element that
  the language does not determine. The model keeps the set as a duplicate-free list and
  lets a choice sequence pick: at the \<open>n\<close>-th iteration of the loop the element at
  position \<open>sched n mod length to_visit\<close> is popped. Every order of popping arises from
  some choice sequence.
\<close>

definition set_pop :: "nat \<Rightarrow> nat list \<Rightarrow> nat \<times> nat list" where
  "set_pop choice s = (let x = s ! (choice mod length s) in (x, removeAll x s))"

text \<open>The body of the \<open>for\<close> loop over the out edges of the current node.\<close>

definition relax_edge :: "Edge list \<Rightarrow> int \<Rightarrow> nat \<Rightarrow> GraphNode list \<times> nat list
    \<Rightarrow> error + (GraphNode list \<times> nat list)" where
  "relax_edge es distance edge_n st =
     (case st of
        (ns, to_visit) \<Rightarrow>
          (if edge_n < length es \<and> to_node (es ! edge_n) < length ns then
             (let edge = es ! edge_n in
              case update_complexity (ns ! to_node edge) (distance + cost edge) of
                Inl e \<Rightarrow> Inl e
              | Inr (n', propagate) \<Rightarrow>
                  Inr (ns[to_node edge := n'],
                       if propagate then List.insert (to_node edge) to_visit else to_visit))
           else Inl IndexError))"

fun relax_edges :: "Edge list \<Rightarrow> int \<Rightarrow> nat list \<Rightarrow> GraphNode list \<times> nat list
    \<Rightarrow> error + (GraphNode list \<times> nat list)" where
  "relax_edges es distance [] st = Inr st"
| "relax_edges es distance (edge_n # rest) st =
     (case relax_edge es distance edge_n st of
        Inl e \<Rightarrow> Inl e
      | Inr st' \<Rightarrow> relax_edges es distance rest st')"

record prop_state =
  ps_nodes :: "GraphNode list"
  ps_to_visit :: "nat list"
  ps_iter :: nat

definition propagate_cond :: "error + prop_state \<Rightarrow> bool" where
  "propagate_cond r = (case r of Inl e \<Rightarrow> False | Inr s \<Rightarrow> ps_to_visit s \<noteq> [])"

definition propagate_body :: "(nat \<Rightarrow> nat) \<Rightarrow> Graph \<Rightarrow> error + prop_state \<Rightarrow> error + prop_state"
  where
  "propagate_body sched g r =
     (case r of
        Inl e \<Rightarrow> Inl e
      | Inr s \<Rightarrow>
          (case set_pop (sched (ps_iter s)) (ps_to_visit s) of
             (current, to_visit) \<Rightarrow>
               (if current < length (ps_nodes s) \<and> current < length (out_edges g) then
                  (case relax_edges (edges g) (complexity (ps_nodes s ! current))
                          (out_edges g ! current) (ps_nodes s, to_visit) of
                     Inl e \<Rightarrow> Inl e
                   | Inr (ns, to_visit') \<Rightarrow>
                       Inr \<lparr>ps_nodes = ns, ps_to_visit = to_visit', ps_iter = Suc (ps_iter s)\<rparr>)
                else Inl IndexError)))"

definition propagate_init :: "Graph \<Rightarrow> error + prop_state" where
  "propagate_init g =
     Inr \<lparr>ps_nodes = nodes g,
          ps_to_visit = filter (\<lambda>i. complexity (nodes g ! i) = 0) [0..<length (nodes g)],
          ps_iter = 0\<rparr>"

text \<open>
  The result is \<open>None\<close> if the loop runs forever. The warnings printed for unreached
  nodes are output only and are left out.
\<close>

definition propagate_complexity :: "(nat \<Rightarrow> nat) \<Rightarrow> Graph \<Rightarrow> (error + Graph) option" where
  "propagate_complexity sched g =
     (case while_option propagate_cond (propagate_body sched g) (propagate_init g) of
        None \<Rightarrow> None
      | Some (Inl e) \<Rightarrow> Some (Inl e)
      | Some (Inr s) \<Rightarrow> Some (Inr (g\<lparr>nodes := ps_nodes s\<rparr>)))"

subsection \<open>\<open>__tarjan\<close>\<close>

text \<open>
  The variables that the nested function \<open>__strongconnect\<close> shares with \<open>__tarjan\<close>.
  The Python list \<open>stack\<close> grows and shrinks at its end; the model keeps the top of
  the stack at the head of the list.
\<close>

record tarjan_state =
  ts_index :: int
  ts_indexes :: "int list"
  ts_low_link :: "int list"
  ts_on_stack :: "bool list"
  ts_stack :: "nat list"
  ts_scc :: "int list"
  ts_scc_index :: int

text \<open>
  The inner \<open>while other_node != node\<close> loop: pop until \<open>node\<close> has been popped.
  \<open>stack.pop()\<close> on an empty list raises IndexError.
\<close>

fun pop_component :: "nat \<Rightarrow> nat list \<Rightarrow> bool list \<Rightarrow> int list \<Rightarrow> int
    \<Rightarrow> error + (nat list \<times> bool list \<times> int list)" where
  "pop_component node [] on_stack scc scc_index = Inl IndexError"
| "pop_component node (other_node # stack) on_stack scc scc_index =
     (let on_stack' = on_stack[other_node := False];
          scc' = scc[other_node := scc_index] in
      if other_node \<noteq> node then pop_component node stack on_stack' scc' scc_index
      else Inr (stack, on_stack', scc'))"

definition finish_node :: "nat \<Rightarrow> tarjan_state \<Rightarrow> error + tarjan_state" where
  "finish_node node st =
     (if ts_low_link st ! node = ts_indexes st ! node then
        (case pop_component node (ts_stack st) (ts_on_stack st) (ts_scc st) (ts_scc_index st) of
           Inl e \<Rightarrow> Inl e
         | Inr (stack, on_stack, scc) \<Rightarrow>
             Inr (st\<lparr>ts_stack := stack, ts_on_stack := on_stack, ts_scc := scc,
                     ts_scc_index := ts_scc_index st + 1\<rparr>))
      else Inr st)"

definition enter_node :: "nat \<Rightarrow> tarjan_state \<Rightarrow> tarjan_state" where
  "enter_node node st =
     st\<lparr>ts_indexes := (ts_indexes st)[node := ts_index st],
        ts_low_link := (ts_low_link st)[node := ts_index st],
        ts_index := ts_index st + 1,
        ts_stack := node # ts_stack st,
        ts_on_stack := (ts_on_stack st)[node := True]\<rparr>"

definition set_low_link :: "nat \<Rightarrow> int \<Rightarrow> tarjan_state \<Rightarrow> tarjan_state" where
  "set_low_link node v st =
     st\<lparr>ts_low_link := (ts_low_link st)[node := min (ts_low_link st ! node) v]\<rparr>"

text \<open>
  \<open>__strongconnect\<close> is recursive; the first argument bounds the depth of the recursion,
  and the result is \<open>None\<close> when the bound is reached. The list indices used here are
  those that \<open>_finish_computation\<close> has stored in \<open>_out_edges\<close>.
\<close>

fun strongconnect :: "nat \<Rightarrow> Graph \<Rightarrow> nat \<Rightarrow> tarjan_state \<Rightarrow> (error + tarjan_state) option"
  and strongconnect_edges :: "nat \<Rightarrow> Graph \<Rightarrow> nat \<Rightarrow> nat list \<Rightarrow> tarjan_state
    \<Rightarrow> (error + tarjan_state) option" where
  "strongconnect 0 g node st = None"
| "strongconnect (Suc fuel) g node st =
     (case strongconnect_edges fuel g node (out_edges g ! node) (enter_node node st) of
        None \<Rightarrow> None
      | Some (Inl e) \<Rightarrow> Some (Inl e)
      | Some (Inr st') \<Rightarrow> Some (finish_node node st'))"
| "strongconnect_edges fuel g node [] st = Some (Inr st)"
| "strongconnect_edges fuel g node (edge_n # rest) st =
     (let other_node = to_node (edges g ! edge_n) in
      if ts_indexes st ! other_node = - 1 then
        (case strongconnect fuel g other_node st of
           None \<Rightarrow> None
         | Some (Inl e) \<Rightarrow> Some (Inl e)
         | Some (Inr st') \<Rightarrow>
             strongconnect_edges fuel g node rest
               (set_low_link node (ts_low_link st' ! other_node) st'))
      else if ts_on_stack st ! other_node then
        strongconnect_edges fuel g node rest
          (set_low_link node (ts_indexes st ! other_node) st)
      else strongconnect_edges fuel g node rest st)"

fun tarjan_nodes :: "nat \<Rightarrow> Graph \<Rightarrow> nat list \<Rightarrow> tarjan_state \<Rightarrow> (error + tarjan_state) option"
  where
  "tarjan_nodes fuel g [] st = Some (Inr st)"
| "tarjan_nodes fuel g (node # rest) st =
     (if ts_indexes st ! node = - 1 then
        (case strongconnect fuel g node st of
           None \<Rightarrow> None
         | Some (Inl e) \<Rightarrow> Some (Inl e)
         | Some (Inr st') \<Rightarrow> tarjan_nodes fuel g rest st')
      else tarjan_nodes fuel g rest st)"

definition tarjan_init :: "Graph \<Rightarrow> tarjan_state" where
  "tarjan_init g =
     \<lparr>ts_index = 0,
      ts_indexes = replicate (length (nodes g)) (- 1),
      ts_low_link = replicate (length (nodes g)) (- 1),
      ts_on_stack = replicate (length (nodes g)) False,
      ts_stack = [],
      ts_scc = replicate (length (nodes g)) (- 1),
      ts_scc_index = 0\<rparr>"

definition tarjan :: "nat \<Rightarrow> Graph \<Rightarrow> (error + int list) option" where
  "tarjan fuel g =
     (case tarjan_nodes fuel g [0..<length (nodes g)] (tarjan_init g) of
        None \<Rightarrow> None
      | Some (Inl e) \<Rightarrow> Some (Inl e)
      | Some (Inr st) \<Rightarrow>
          Some (if - 1 \<notin> set (ts_scc st) then Inr (ts_scc st) else Inl AssertionError))"

subsection \<open>\<open>get_out\<close> and \<open>__remove_loops\<close>\<close>

definition get_out :: "Graph \<Rightarrow> nat \<Rightarrow> (nat \<times> nat) list" where
  "get_out g node = map (\<lambda>edge_n. (to_node (edges g ! edge_n), edge_n)) (out_edges g ! node)"

definition action_category :: "EdgeType \<Rightarrow> bool" where
  "action_category c = (c = BARE_HANDS \<or> c = INTERACT \<or> c = NATURAL \<or> c = DROP \<or> c = CONSUME)"

text \<open>
  The first loop, which fills \<open>possible_from\<close>, \<open>possible_to\<close> and \<open>possible_edge\<close>;
  the three lists are kept as one list of triples, as the later \<open>zip\<close> reads them.
\<close>

definition possible_of_parent :: "Graph \<Rightarrow> int list \<Rightarrow> nat \<Rightarrow> nat \<Rightarrow> (nat \<times> nat \<times> nat) list"
  where
  "possible_of_parent g scc i j =
     (let edge = edges g ! j; parent = from_node edge in
      if scc ! parent = scc ! i \<and> action_category (category edge) then
        (let distance = complexity (nodes g ! parent) in
         map (\<lambda>(child, edge_child). (parent, child, edge_child))
           (filter (\<lambda>(c, e). scc ! c = scc ! i \<and> complexity (nodes g ! c) < distance)
              (get_out g i)))
      else [])"

definition possible :: "Graph \<Rightarrow> int list \<Rightarrow> (nat \<times> nat \<times> nat) list" where
  "possible g scc =
     concat (map (\<lambda>i. concat (map (possible_of_parent g scc i) (incoming_edges g ! i)))
               [0..<length (nodes g)])"

text \<open>The search for the distances from \<open>to_node\<close> inside its component.\<close>

fun relax_distances :: "Graph \<Rightarrow> int list \<Rightarrow> nat \<Rightarrow> int \<Rightarrow> (nat \<times> nat) list
    \<Rightarrow> int list \<times> nat list \<Rightarrow> int list \<times> nat list" where
  "relax_distances g scc to current_distance [] (distances, to_visit) = (distances, to_visit)"
| "relax_distances g scc to current_distance ((child, child_edge) # rest) (distances, to_visit) =
     (if scc ! child \<noteq> scc ! to then
        relax_distances g scc to current_distance rest (distances, to_visit)
      else
        (let new_dist = current_distance + cost (edges g ! child_edge) in
         if distances ! child = - 1 \<or> distances ! child > new_dist then
           relax_distances g scc to current_distance rest
             (distances[child := new_dist], List.insert child to_visit)
         else relax_distances g scc to current_distance rest (distances, to_visit)))"

record dist_state =
  ds_distances :: "int list"
  ds_to_visit :: "nat list"
  ds_iter :: nat

definition distances_body :: "(nat \<Rightarrow> nat) \<Rightarrow> Graph \<Rightarrow> int list \<Rightarrow> nat \<Rightarrow> dist_state \<Rightarrow> dist_state"
  where
  "distances_body sched g scc to s =
     (case set_pop (sched (ds_iter s)) (ds_to_visit s) of
        (current, to_visit) \<Rightarrow>
          (case relax_distances g scc to (ds_distances s ! current) (get_out g current)
                  (ds_distances s, to_visit) of
             (distances, to_visit') \<Rightarrow>
               \<lparr>ds_distances = distances, ds_to_visit = to_visit', ds_iter = Suc (ds_iter s)\<rparr>))"

definition component_distances :: "(nat \<Rightarrow> nat) \<Rightarrow> Graph \<Rightarrow> int list \<Rightarrow> nat \<Rightarrow> int list option"
  where
  "component_distances sched g scc to =
     map_option ds_distances
       (while_option (\<lambda>s. ds_to_visit s \<noteq> []) (distances_body sched g scc to)
          \<lparr>ds_distances = (replicate (length (nodes g)) (- 1))[to := 0],
           ds_to_visit = [to], ds_iter = 0\<rparr>)"

text \<open>
  The second loop; \<open>sched k\<close> is the choice sequence of the search made for the
  \<open>k\<close>-th triple.
\<close>

fun delete_edges :: "(nat \<Rightarrow> nat \<Rightarrow> nat) \<Rightarrow> Graph \<Rightarrow> int list \<Rightarrow> nat \<Rightarrow> (nat \<times> nat \<times> nat) list
    \<Rightarrow> nat list option" where
  "delete_edges sched g scc k [] = Some []"
| "delete_edges sched g scc k ((from, to, edg) # rest) =
     (case component_distances (sched k) g scc to of
        None \<Rightarrow> None
      | Some distances \<Rightarrow>
          (let diff = complexity (nodes g ! from) - complexity (nodes g ! to) in
           case delete_edges sched g scc (Suc k) rest of
             None \<Rightarrow> None
           | Some ds \<Rightarrow> Some (if distances ! from \<le> diff then edg # ds else ds)))"

fun mark_looping :: "nat list \<Rightarrow> Edge list \<Rightarrow> Edge list" where
  "mark_looping [] es = es"
| "mark_looping (delete # rest) es = mark_looping rest (es[delete := (es ! delete)\<lparr>looping := True\<rparr>])"

definition remove_loops :: "(nat \<Rightarrow> nat \<Rightarrow> nat) \<Rightarrow> Graph \<Rightarrow> int list \<Rightarrow> Graph option" where
  "remove_loops sched g scc =
     (case delete_edges sched g scc 0 (possible g scc) of
        None \<Rightarrow> None
      | Some ds \<Rightarrow> Some (g\<lparr>edges := mark_looping ds (edges g)\<rparr>))"

subsection \<open>\<open>__init__\<close> and \<open>_finish_computation\<close>\<close>

text \<open>
  The parameters that are not in the source: \<open>sched\<close> and \<open>sched'\<close> are the choice
  sequences of the two kinds of work-set loops, \<open>fuel\<close> is the recursion depth granted to
  \<open>__strongconnect\<close>. \<open>None\<close> stands for a run that does not return.
\<close>

definition finish_computation :: "(nat \<Rightarrow> nat) \<Rightarrow> nat \<Rightarrow> (nat \<Rightarrow> nat \<Rightarrow> nat) \<Rightarrow> Graph
    \<Rightarrow> (error + Graph) option" where
  "finish_computation sched fuel sched' g =
     (case update_edge_indices g of
        Inl e \<Rightarrow> Some (Inl e)
      | Inr g1 \<Rightarrow>
          (case propagate_complexity sched g1 of
             None \<Rightarrow> None
           | Some (Inl e) \<Rightarrow> Some (Inl e)
           | Some (Inr g2) \<Rightarrow>
               (case tarjan fuel g2 of
                  None \<Rightarrow> None
                | Some (Inl e) \<Rightarrow> Some (Inl e)
                | Some (Inr scc) \<Rightarrow> map_option Inr (remove_loops sched' g2 scc))))"

definition Graph_init :: "(nat \<Rightarrow> nat) \<Rightarrow> nat \<Rightarrow> (nat \<Rightarrow> nat \<Rightarrow> nat) \<Rightarrow> (int \<times> Object) list
    \<Rightarrow> Transition list \<Rightarrow> (error + Graph) option" where
  "Graph_init sched fuel sched' objects transitions =
     (case create objects transitions empty_graph of
        Inl e \<Rightarrow> Some (Inl e)
      | Inr g \<Rightarrow> finish_computation sched fuel sched' g)"

section \<open>subgraph.py: class SubGraph\<close>

datatype IgnoreMode = NO_PARENTS | LEAST_COMPLEX_PARENT | ONLY_EXISTING_PARENTS | ALL_PARENTS

record SubGraph =
  graph :: Graph
  ignored_nodes :: "nat set"
  ignored_edges :: "nat set"
  max_distance :: int
  ignore_categories :: IgnoreMode
  ignore_natural :: IgnoreMode
  ignore_others :: IgnoreMode

definition SubGraph_init :: "Graph \<Rightarrow> SubGraph" where
  "SubGraph_init g =
     \<lparr>graph = g,
      ignored_nodes = {},
      ignored_edges = set (filter (\<lambda>i. looping (edges g ! i)) [0..<length (edges g)]),
      max_distance = 50,
      ignore_categories = ONLY_EXISTING_PARENTS,
      ignore_natural = NO_PARENTS,
      ignore_others = LEAST_COMPLEX_PARENT\<rparr>"

definition get_ignore_type :: "SubGraph \<Rightarrow> nat \<Rightarrow> IgnoreMode" where
  "get_ignore_type sg node_index =
     (case nodes (graph sg) ! node_index of
        NodeTransition tr c \<Rightarrow> ALL_PARENTS
      | NodeObject ob c \<Rightarrow>
          (if c = 0 then ignore_natural sg
           else if is_category ob then ignore_categories sg
           else ignore_others sg))"

definition get_all_parents :: "SubGraph \<Rightarrow> nat \<Rightarrow> nat list" where
  "get_all_parents sg node =
     filter (\<lambda>parent. parent \<notin> ignored_nodes sg)
       (map (\<lambda>edge_n. from_node (edges (graph sg) ! edge_n))
          (filter (\<lambda>edge_n. edge_n \<notin> ignored_edges sg) (incoming_edges (graph sg) ! node)))"

text \<open>The loop of the last branch of \<open>_get_parents\<close>, over the list \<open>parents\<close>.\<close>

fun least_complex :: "Graph \<Rightarrow> nat list \<Rightarrow> nat \<Rightarrow> nat" where
  "least_complex g [] chosen = chosen"
| "least_complex g (parent # rest) chosen =
     (if complexity (nodes g ! parent) < complexity (nodes g ! chosen)
      then least_complex g rest parent
      else least_complex g rest chosen)"

text \<open>
  \<open>_get_parents\<close> is a generator; the model returns the list of what it yields, or the
  exception raised while it runs (\<open>parents[0]\<close> on an empty list raises IndexError).
\<close>

definition get_parents :: "SubGraph \<Rightarrow> nat \<Rightarrow> error + nat list" where
  "get_parents sg node =
     (let mode = get_ignore_type sg node in
      if mode = NO_PARENTS \<or> mode = ONLY_EXISTING_PARENTS then Inr []
      else if mode = ALL_PARENTS then Inr (get_all_parents sg node)
      else
        (case get_all_parents sg node of
           [] \<Rightarrow> Inl IndexError
         | chosen # rest \<Rightarrow> Inr [least_complex (graph sg) (chosen # rest) chosen]))"

fun get_children_of :: "SubGraph \<Rightarrow> nat \<Rightarrow> nat list \<Rightarrow> error + nat list" where
  "get_children_of sg node [] = Inr []"
| "get_children_of sg node (edge_n # rest) =
     (if edge_n \<in> ignored_edges sg then get_children_of sg node rest
      else
        (let child = to_node (edges (graph sg) ! edge_n) in
         if child \<notin> ignored_nodes sg then
           (case get_parents sg child of
              Inl e \<Rightarrow> Inl e
            | Inr ps \<Rightarrow>
                (case get_children_of sg node rest of
                   Inl e \<Rightarrow> Inl e
                 | Inr cs \<Rightarrow> Inr (if node \<in> set ps then child # cs else cs)))
         else get_children_of sg node rest))"

definition get_children :: "SubGraph \<Rightarrow> nat \<Rightarrow> error + nat list" where
  "get_children sg node = get_children_of sg node (out_edges (graph sg) ! node)"

fun compute_proxy_from :: "SubGraph \<Rightarrow> nat list \<Rightarrow> (nat \<rightharpoonup> nat) \<Rightarrow> error + (nat \<rightharpoonup> nat)" where
  "compute_proxy_from sg [] proxy = Inr proxy"
| "compute_proxy_from sg (i # rest) proxy =
     (if \<not> is_object (nodes (graph sg) ! i) then
        (case get_parents sg i of
           Inl e \<Rightarrow> Inl e
         | Inr ps \<Rightarrow>
             (if length ps = 1 then
                (case get_children sg i of
                   Inl e \<Rightarrow> Inl e
                 | Inr children \<Rightarrow>
                     compute_proxy_from sg rest
                       (if length children = 1 then proxy(i \<mapsto> children ! 0) else proxy))
              else compute_proxy_from sg rest proxy))
      else compute_proxy_from sg rest proxy)"

definition compute_proxy :: "SubGraph \<Rightarrow> error + (nat \<rightharpoonup> nat)" where
  "compute_proxy sg = compute_proxy_from sg [0..<length (nodes (graph sg))] Map.empty"

definition edges_ignored_by_no_parent_nodes :: "SubGraph \<Rightarrow> nat set" where
  "edges_ignored_by_no_parent_nodes sg =
     set (concat (map (\<lambda>i. if get_ignore_type sg i = NO_PARENTS
                            then incoming_edges (graph sg) ! i else [])
                    [0..<length (nodes (graph sg))]))"

subsection \<open>\<open>leading_to_obj\<close>\<close>

record lead_state =
  ls_visited :: "nat set"
  ls_distances :: "int list"
  ls_to_visit :: "nat list"
  ls_iter :: nat

text \<open>The \<open>for parent in self._get_parents(current)\<close> loop.\<close>

fun visit_parents :: "int \<Rightarrow> nat list \<Rightarrow> nat set \<times> int list \<times> nat list
    \<Rightarrow> nat set \<times> int list \<times> nat list" where
  "visit_parents distance [] (visited, distances, to_visit) = (visited, distances, to_visit)"
| "visit_parents distance (parent # rest) (visited, distances, to_visit) =
     (if parent \<notin> visited then
        visit_parents distance rest
          (insert parent visited, distances[parent := distance + 1], List.insert parent to_visit)
      else if distances ! parent < distance + 1 then
        visit_parents distance rest
          (visited, distances[parent := distance + 1], List.insert parent to_visit)
      else visit_parents distance rest (visited, distances, to_visit))"

definition lead_cond :: "error + lead_state \<Rightarrow> bool" where
  "lead_cond r = (case r of Inl e \<Rightarrow> False | Inr s \<Rightarrow> ls_to_visit s \<noteq> [])"

definition lead_body :: "(nat \<Rightarrow> nat) \<Rightarrow> SubGraph \<Rightarrow> error + lead_state \<Rightarrow> error + lead_state" where
  "lead_body sched sg r =
     (case r of
        Inl e \<Rightarrow> Inl e
      | Inr s \<Rightarrow>
          (case set_pop (sched (ls_iter s)) (ls_to_visit s) of
             (current, to_visit) \<Rightarrow>
               (let distance = (if max_distance sg > 0 then ls_distances s ! current else - 1) in
                if distance > max_distance sg then
                  Inr (s\<lparr>ls_to_visit := to_visit, ls_iter := Suc (ls_iter s)\<rparr>)
                else
                  (case get_parents sg current of
                     Inl e \<Rightarrow> Inl e
                   | Inr ps \<Rightarrow>
                       (case visit_parents distance ps (ls_visited s, ls_distances s, to_visit) of
                          (visited, distances, to_visit') \<Rightarrow>
                            Inr \<lparr>ls_visited = visited, ls_distances = distances,
                                 ls_to_visit = to_visit', ls_iter = Suc (ls_iter s)\<rparr>)))))"

text \<open>
  The first statement of \<open>leading_to_obj\<close> calls \<open>set.union\<close>, which returns a new set
  and leaves \<open>self.ignored_edges\<close> as it was; the returned set is dropped. The model
  binds it to a name that is not used.
\<close>

definition leading_to_obj :: "(nat \<Rightarrow> nat) \<Rightarrow> SubGraph \<Rightarrow> int \<Rightarrow> (error + SubGraph) option" where
  "leading_to_obj sched sg ob =
     (let dropped = ignored_edges sg \<union> edges_ignored_by_no_parent_nodes sg in
      case obj_to_node (graph sg) ob of
        None \<Rightarrow> Some (Inl KeyError)
      | Some start \<Rightarrow>
          (case while_option lead_cond (lead_body sched sg)
                  (Inr \<lparr>ls_visited = {start},
                        ls_distances = replicate (length (nodes (graph sg))) 0,
                        ls_to_visit = [start], ls_iter = 0\<rparr>) of
             None \<Rightarrow> None
           | Some (Inl e) \<Rightarrow> Some (Inl e)
           | Some (Inr s) \<Rightarrow>
               Some (Inr (sg\<lparr>ignored_nodes := ignored_nodes sg \<union>
                   set (filter (\<lambda>i. i \<notin> ls_visited s) [0..<length (nodes (graph sg))])\<rparr>))))"

subsection \<open>\<open>to_graphviz\<close>\<close>

definition get_node_through_proxy :: "nat \<Rightarrow> (nat \<rightharpoonup> nat) \<Rightarrow> nat" where
  "get_node_through_proxy node proxy = (case proxy node of Some n \<Rightarrow> n | None \<Rightarrow> node)"

definition is_edge_valid :: "Graph \<Rightarrow> nat \<Rightarrow> nat set \<Rightarrow> nat set \<Rightarrow> (nat \<rightharpoonup> nat) \<Rightarrow> bool" where
  "is_edge_valid g edge_id ignored_ns ignored_es proxy_nodes =
     (if edge_id \<in> ignored_es then False
      else
        (let edge = edges g ! edge_id;
             f = get_node_through_proxy (from_node edge) proxy_nodes;
             t = get_node_through_proxy (to_node edge) proxy_nodes in
         if f = t then False else \<not> (f \<in> ignored_ns \<or> t \<in> ignored_ns)))"

text \<open>
  \<open>to_graphviz\<close> writes one line for each node that is neither ignored nor proxied and
  one line for each valid edge. The model returns the indices of these nodes and edges, in
  the order of the lines, and leaves the text of the lines out.
\<close>

definition to_graphviz :: "SubGraph \<Rightarrow> error + (nat list \<times> nat list)" where
  "to_graphviz sg =
     (case compute_proxy sg of
        Inl e \<Rightarrow> Inl e
      | Inr proxy_nodes \<Rightarrow>
          Inr (filter (\<lambda>i. i \<notin> ignored_nodes sg \<and> proxy_nodes i = None)
                 [0..<length (nodes (graph sg))],
               filter (\<lambda>i. is_edge_valid (graph sg) i (ignored_nodes sg) (ignored_edges sg)
                             proxy_nodes)
                 [0..<length (edges (graph sg))]))"

section \<open>Reachability along edges\<close>




definition complexities :: "Graph \<Rightarrow> int list" where
  "complexities g = map complexity (nodes g)"

section \<open>Scenarios\<close>

definition mk_object :: "int \<Rightarrow> string \<Rightarrow> bool \<Rightarrow> Object" where
  "mk_object i n natural =
     \<lparr>identifier = i, name = n, is_natural = natural, is_category = False,
      category_contains = []\<rparr>"

text \<open>Stone and Stone Block: one transition with bare hands.\<close>

definition stone_objects :: "(int \<times> Object) list" where
  "stone_objects = [(0, mk_object 0 ''Bare Hands'' True), (1, mk_object 1 ''Stone'' True),
                    (2, mk_object 2 ''Stone Block'' False)]"

definition bare_hands_stone :: Transition where
  "bare_hands_stone = \<lparr>actor = 0, target = 1, new_actor = 0, new_target = 2,
                        auto_decay_seconds = 0, ttype = T_BARE_HANDS\<rparr>"

text \<open>A cycle of two objects: A is crafted into B and B into A.\<close>

definition cycle_objects :: "(int \<times> Object) list" where
  "cycle_objects = [(1, mk_object 1 ''A'' True), (2, mk_object 2 ''B'' False)]"

definition craft_a_b :: Transition where
  "craft_a_b = \<lparr>actor = 1, target = 0, new_actor = 0, new_target = 2,
                 auto_decay_seconds = 0, ttype = T_CRAFT\<rparr>"

definition craft_b_a :: Transition where
  "craft_b_a = \<lparr>actor = 2, target = 0, new_actor = 0, new_target = 1,
                 auto_decay_seconds = 0, ttype = T_CRAFT\<rparr>"

text \<open>The same two crafts, where the input object is an output as well: it is kept.\<close>

definition craft_a_b_keeping_a :: Transition where
  "craft_a_b_keeping_a = \<lparr>actor = 1, target = 0, new_actor = 1, new_target = 2,
                           auto_decay_seconds = 0, ttype = T_CRAFT\<rparr>"

definition craft_b_a_keeping_b :: Transition where
  "craft_b_a_keeping_b = \<lparr>actor = 2, target = 0, new_actor = 2, new_target = 1,
                           auto_decay_seconds = 0, ttype = T_CRAFT\<rparr>"

text \<open>
  The graph that \<open>_create\<close> and the indexing of \<open>_finish_computation\<close> build from a
  cycle of two crafts \<open>tr1\<close> (of B, from A) and \<open>tr2\<close> (of A, from B). The parameters
  are the two transitions, the categories \<open>c1\<close> and \<open>c2\<close> of their input edges, and
  the complexities of the four nodes.
\<close>

definition two_cycle :: "Transition \<Rightarrow> EdgeType \<Rightarrow> Transition \<Rightarrow> EdgeType
    \<Rightarrow> int \<Rightarrow> int \<Rightarrow> int \<Rightarrow> int \<Rightarrow> Graph" where
  "two_cycle tr1 c1 tr2 c2 a b t1 t2 =
     \<lparr>nodes = [NodeObject (mk_object 1 ''A'' True) a, NodeObject (mk_object 2 ''B'' False) b,
               NodeTransition tr1 t1, NodeTransition tr2 t2],
      edges = [Edge_init 2 1 TRANSITION None, Edge_init 0 2 c1 (Some tr1),
               Edge_init 3 0 TRANSITION None, Edge_init 1 3 c2 (Some tr2)],
      incoming_edges = [[2], [0], [1], [3]],
      out_edges = [[1], [3], [0], [2]],
      obj_to_node = [1 \<mapsto> 0, 2 \<mapsto> 1]\<rparr>"


definition craft_join :: Transition where
  "craft_join = \<lparr>actor = 1, target = 2, new_actor = 0, new_target = 3,
                  auto_decay_seconds = 0, ttype = T_CRAFT\<rparr>"

text \<open>The same craft, where B is made from A with bare hands.\<close>

definition bare_hands_a_b :: Transition where
  "bare_hands_a_b = \<lparr>actor = 0, target = 1, new_actor = 0, new_target = 2,
                      auto_decay_seconds = 0, ttype = T_BARE_HANDS\<rparr>"

text \<open>
  Two natural objects A and B; picking A up with bare hands gives D and B; D and B are
  crafted into C.
\<close>

definition source_objects :: "(int \<times> Object) list" where
  "source_objects = [(1, mk_object 1 ''A'' True), (2, mk_object 2 ''B'' True),
                     (3, mk_object 3 ''D'' False), (4, mk_object 4 ''C'' False)]"

definition bare_hands_a_d_b :: Transition where
  "bare_hands_a_d_b = \<lparr>actor = 0, target = 1, new_actor = 3, new_target = 2,
                        auto_decay_seconds = 0, ttype = T_BARE_HANDS\<rparr>"

definition craft_d_b_c :: Transition where
  "craft_d_b_c = \<lparr>actor = 3, target = 2, new_actor = 0, new_target = 4,
                   auto_decay_seconds = 0, ttype = T_CRAFT\<rparr>"


section \<open>Well-formed graphs and the states of the propagation\<close>

text \<open>
  The predicates below are used to state and to prove what \<open>__propagate_complexity\<close>
  does on every graph and for every order of popping.
\<close>

subsection \<open>How a node changes\<close>

text \<open>
  A node keeps its object or transition; the complexity of an object node does not
  increase and that of a transition node does not decrease.
\<close>

fun evolves :: "GraphNode \<Rightarrow> GraphNode \<Rightarrow> bool" where
  "evolves (NodeObject ob c) (NodeObject ob' c') = (ob' = ob \<and> c' \<le> c)"
| "evolves (NodeTransition tr c) (NodeTransition tr' c') = (tr' = tr \<and> c \<le> c')"
| "evolves (NodeObject ob c) (NodeTransition tr' c') = False"
| "evolves (NodeTransition tr c) (NodeObject ob' c') = False"



subsection \<open>Well-formed graphs\<close>




text \<open>
  A node as the constructors \<open>NodeObject\<close> and \<open>NodeTransition\<close> leave it, and a
  graph of such nodes.
\<close>

fun fresh_node :: "GraphNode \<Rightarrow> bool" where
  "fresh_node (NodeObject ob c) = (c = (if is_natural ob then 0 else DEFAULT_COMPLEXITY))"
| "fresh_node (NodeTransition tr c) = (c = - 1)"


text \<open>
  The invariant of \<open>_create\<close>: the nodes are fresh, the dictionary \<open>obj_to_node\<close>
  leads to object nodes, the ends of every edge are nodes, and no edge joins two
  transition nodes.
\<close>

definition built :: "Graph \<Rightarrow> bool" where
  "built g =
     (list_all fresh_node (nodes g) \<and>
      (\<forall>i n. obj_to_node g i = Some n \<longrightarrow> n < length (nodes g) \<and> is_object (nodes g ! n)) \<and>
      (\<forall>e\<in>set (edges g). from_node e < length (nodes g) \<and> to_node e < length (nodes g) \<and>
          (is_object (nodes g ! from_node e) \<or> is_object (nodes g ! to_node e))))"

subsection \<open>Invariants and measures of the loop of the propagation\<close>










subsection \<open>Reachability through transitions with one input\<close>



subsection \<open>Settled graphs\<close>





section \<open>The scenarios, evaluated\<close>

lemmas graph_defs = Graph_init_def create_def empty_graph_def NodeObject_init_def
  NodeTransition_init_def DEFAULT_COMPLEXITY_def get_input_objects_def get_output_objects_def
  Edge_init_def transition_type_to_edge_type_def finish_computation_def update_edge_indices_def
  propagate_complexity_def propagate_init_def propagate_cond_def propagate_body_def set_pop_def
  relax_edge_def
  cost_def tarjan_def tarjan_init_def enter_node_def finish_node_def set_low_link_def
  remove_loops_def possible_def possible_of_parent_def get_out_def action_category_def
  component_distances_def distances_body_def while_option_unfold upt_rec Let_def
  complexities_def mk_object_def

lemmas subgraph_defs = SubGraph_init_def get_ignore_type_def get_all_parents_def get_parents_def
  get_children_def compute_proxy_def edges_ignored_by_no_parent_nodes_def lead_cond_def
  lead_body_def leading_to_obj_def get_node_through_proxy_def is_edge_valid_def to_graphviz_def

lemma scenario_transitions_valid:
  "Transition_init 0 1 0 2 0 = Inr bare_hands_stone"
  "Transition_init 1 0 0 2 0 = Inr craft_a_b"
  "Transition_init 2 0 0 1 0 = Inr craft_b_a"
  "Transition_init 1 0 1 2 0 = Inr craft_a_b_keeping_a"
  "Transition_init 2 0 2 1 0 = Inr craft_b_a_keeping_b"
  "Transition_init 1 2 0 3 0 = Inr craft_join"
  "Transition_init 0 1 0 2 0 = Inr bare_hands_a_b"
  "Transition_init 0 1 3 2 0 = Inr bare_hands_a_d_b"
  "Transition_init 3 2 0 4 0 = Inr craft_d_b_c"
  by (simp_all add: Transition_init_def bare_hands_stone_def craft_a_b_def craft_b_a_def
      craft_a_b_keeping_a_def craft_b_a_keeping_b_def
      craft_join_def bare_hands_a_b_def bare_hands_a_d_b_def craft_d_b_c_def)

text \<open>
  C2, as the claim states it: on the Stone scenario the transition node (node 2) would have
  complexity 0. It has complexity 1: the cost 1 of the edge from Stone is added before
  the transition node is updated.
\<close>

theorem stone_transition_complexity_not_zero:
  "\<not> (\<exists>g. Graph_init (\<lambda>n. 0) 3 (\<lambda>k n. 0) stone_objects [bare_hands_stone] = Some (Inr g)
        \<and> complexity (nodes g ! 0) = 0 \<and> complexity (nodes g ! 2) = 0
        \<and> complexity (nodes g ! 1) = 1)"
  by (simp add: graph_defs stone_objects_def bare_hands_stone_def eval_nat_numeral)

text \<open>
  C2, amended: for the objects 0 = Bare Hands (natural), 1 = Stone (natural),
  2 = Stone Block and the single bare-hands transition from Stone to Stone Block, whatever
  the order in which the work-sets are popped, construction and propagation give
  complexity 0 to Stone (node 0), complexity 1 to the transition node (node 2) and
  complexity 1 to Stone Block (node 1), an edge from Stone to the transition node with
  category \<open>BARE_HANDS\<close> and cost 1, and an edge from the transition node to Stone Block
  with category \<open>TRANSITION\<close> and cost 0.
\<close>

theorem stone_scenario:
  "\<exists>g. Graph_init sched (Suc (Suc (Suc fuel))) sched' stone_objects [bare_hands_stone]
          = Some (Inr g)
     \<and> obj_to_node g 1 = Some 0 \<and> obj_to_node g 2 = Some 1
     \<and> complexities g = [0, 1, 1]
     \<and> map (\<lambda>e. (from_node e, to_node e, category e, cost e)) (edges g)
         = [(2, 1, TRANSITION, 0), (0, 2, BARE_HANDS, 1)]"
  by (simp add: graph_defs stone_objects_def bare_hands_stone_def)

text \<open>
  C6, as the claim states it: in a cycle of two crafts whose input edges cost 1, with the
  complexity of A one below that of B, the edge into A would be marked looping. Where the
  craft of A keeps B, the cycle is built, A (node 0) and B (node 1) settle at 0 and 1, both
  input edges cost 1, the input edge of that craft has the category \<open>TOOL\<close>, and no
  edge is marked, whatever the pop orders are: \<open>__remove_loops\<close> examines the parents
  of a node only along edges of the categories \<open>BARE_HANDS\<close>, \<open>INTERACT\<close>,
  \<open>NATURAL\<close>, \<open>DROP\<close> and \<open>CONSUME\<close>.
\<close>

theorem kept_input_cycle_no_edge_looping:
  "\<forall>sched fuel sched'.
     (case Graph_init sched (Suc (Suc (Suc (Suc fuel)))) sched' cycle_objects
             [craft_a_b, craft_b_a_keeping_b] of
        Some (Inr g) \<Rightarrow>
          complexities g = [0, 1, 1, 2] \<and>
          map (\<lambda>e. (from_node e, to_node e, category e, cost e, looping e)) (edges g)
            = [(2, 1, TRANSITION, 0, False), (0, 2, CONSUME, 1, False),
               (3, 0, TRANSITION, 0, False), (1, 3, TOOL, 1, False)]
      | _ \<Rightarrow> False)"
  by (simp add: graph_defs cycle_objects_def craft_a_b_def craft_b_a_keeping_b_def)

text \<open>
  C6, amended: in a cycle of two crafts where the input edge of the craft of B (edge 1,
  from A) costs 1 and the craft of A consumes B (its input edge, edge 3, has the category
  \<open>CONSUME\<close>), whatever the two transitions and the complexities of the four nodes
  are: the four nodes form one component; the distance from A back to B inside the
  component is 1; the test made for the triple (parent B, child A, edge 2), where edge 2
  leads from the transition node of the craft of A (node 3) to A (node 0), selects edge 2
  if and only if that distance 1 is at most the complexity of B minus the complexity of
  A. If the complexity of A is the complexity of B minus 1, that triple is the only one
  examined, the distance is the difference of the complexities, and edge 2, and no other
  edge, is marked looping.
\<close>

theorem two_cycle_return_edge_looping:
  assumes "cost (edges (two_cycle tr1 c1 tr2 CONSUME a b t1 t2) ! 1) = 1"
  shows "tarjan (Suc (Suc (Suc (Suc fuel)))) (two_cycle tr1 c1 tr2 CONSUME a b t1 t2)
           = Some (Inr [0, 0, 0, 0]) \<and>
         component_distances sd (two_cycle tr1 c1 tr2 CONSUME a b t1 t2) [0, 0, 0, 0] 0
           = Some [0, 1, 1, 2] \<and>
         delete_edges sched' (two_cycle tr1 c1 tr2 CONSUME a b t1 t2) [0, 0, 0, 0] k [(1, 0, 2)]
           = Some (if [0, 1, 1, 2] ! 1
                        \<le> complexity (nodes (two_cycle tr1 c1 tr2 CONSUME a b t1 t2) ! 1)
                            - complexity (nodes (two_cycle tr1 c1 tr2 CONSUME a b t1 t2) ! 0)
                   then [2] else []) \<and>
         (a = b - 1 \<longrightarrow>
            possible (two_cycle tr1 c1 tr2 CONSUME a b t1 t2) [0, 0, 0, 0] = [(1, 0, 2)] \<and>
            [0, 1, 1, 2] ! 1 = complexity (nodes (two_cycle tr1 c1 tr2 CONSUME a b t1 t2) ! 1)
                                 - complexity (nodes (two_cycle tr1 c1 tr2 CONSUME a b t1 t2) ! 0) \<and>
            (\<exists>g'. remove_loops sched' (two_cycle tr1 c1 tr2 CONSUME a b t1 t2) [0, 0, 0, 0]
                     = Some g' \<and>
                  map (\<lambda>e. (from_node e, to_node e, looping e)) (edges g')
                    = [(2, 1, False), (0, 2, False), (3, 0, True), (1, 3, False)]))"
  using assms by (simp add: graph_defs two_cycle_def split: if_splits)


lemma two_cycle_propagated:
  "propagate_complexity sched
       (two_cycle craft_a_b CONSUME craft_b_a CONSUME 0 DEFAULT_COMPLEXITY (- 1) (- 1))
     = Some (Inr (two_cycle craft_a_b CONSUME craft_b_a CONSUME 0 1 1 2))"
  "propagate_complexity sched
       (two_cycle craft_a_b_keeping_a TOOL craft_b_a CONSUME 0 DEFAULT_COMPLEXITY (- 1) (- 1))
     = Some (Inr (two_cycle craft_a_b_keeping_a TOOL craft_b_a CONSUME 0 1 1 2))"
  by (simp_all add: graph_defs craft_a_b_def craft_b_a_def craft_a_b_keeping_a_def
      two_cycle_def)

text \<open>
  The cycle as the constructor leaves it, with A natural, for the craft of B that consumes
  A: propagation gives the complexities 0 and 1 to A and B, the edge into A is marked, and
  the constructed graph has exactly that edge marked.
\<close>

theorem two_cycle_return_edge_looping_witness:
  "cost (edges (two_cycle craft_a_b CONSUME craft_b_a CONSUME 0 1 1 2) ! 1) = 1 \<and>
   (0::int) = 1 - 1 \<and>
   propagate_complexity (\<lambda>n. 0)
       (two_cycle craft_a_b CONSUME craft_b_a CONSUME 0 DEFAULT_COMPLEXITY (- 1) (- 1))
     = Some (Inr (two_cycle craft_a_b CONSUME craft_b_a CONSUME 0 1 1 2)) \<and>
   tarjan 4 (two_cycle craft_a_b CONSUME craft_b_a CONSUME 0 1 1 2) = Some (Inr [0, 0, 0, 0]) \<and>
   delete_edges (\<lambda>k n. 0) (two_cycle craft_a_b CONSUME craft_b_a CONSUME 0 1 1 2) [0, 0, 0, 0] 0
       [(1, 0, 2)] = Some [2] \<and>
   (\<exists>g'. remove_loops (\<lambda>k n. 0) (two_cycle craft_a_b CONSUME craft_b_a CONSUME 0 1 1 2)
            [0, 0, 0, 0] = Some g' \<and>
         map (\<lambda>e. (from_node e, to_node e, looping e)) (edges g')
           = [(2, 1, False), (0, 2, False), (3, 0, True), (1, 3, False)]) \<and>
   (case Graph_init (\<lambda>n. 0) 4 (\<lambda>k n. 0) cycle_objects [craft_a_b, craft_b_a] of
      Some (Inr g) \<Rightarrow>
        complexities g = [0, 1, 1, 2] \<and>
        map (\<lambda>e. (from_node e, to_node e, category e, cost e, looping e)) (edges g)
          = [(2, 1, TRANSITION, 0, False), (0, 2, CONSUME, 1, False),
             (3, 0, TRANSITION, 0, True), (1, 3, CONSUME, 1, False)]
    | _ \<Rightarrow> False)"
proof -
  have built:
    "(case Graph_init (\<lambda>n. 0) 4 (\<lambda>k n. 0) cycle_objects [craft_a_b, craft_b_a] of
        Some (Inr g) \<Rightarrow>
          complexities g = [0, 1, 1, 2] \<and>
          map (\<lambda>e. (from_node e, to_node e, category e, cost e, looping e)) (edges g)
            = [(2, 1, TRANSITION, 0, False), (0, 2, CONSUME, 1, False),
               (3, 0, TRANSITION, 0, True), (1, 3, CONSUME, 1, False)]
      | _ \<Rightarrow> False)"
    by (simp add: graph_defs cycle_objects_def craft_a_b_def craft_b_a_def eval_nat_numeral)
  have input_cost: "cost (edges (two_cycle craft_a_b CONSUME craft_b_a CONSUME 0 1 1 2) ! 1) = 1"
    by (simp add: two_cycle_def cost_def Edge_init_def)
  from two_cycle_return_edge_looping [OF input_cost, of 0 "\<lambda>n. 0" "\<lambda>k n. 0" 0]
    two_cycle_propagated(1) [of "\<lambda>n. 0"] built input_cost
  show ?thesis
    by (simp add: eval_nat_numeral)
qed

text \<open>
  C8, the code at the failing input: Stone Block has no recipe and is not natural, so
  its mode is \<open>LEAST_COMPLEX_PARENT\<close> and its list of parents is empty;
  \<open>leading_to_obj\<close> for Stone Block raises IndexError, whatever the pop orders are.
\<close>

theorem leading_to_obj_without_parents_raises:
  "(case Graph_init sched (Suc fuel) sched' stone_objects [] of
      Some (Inr g) \<Rightarrow>
        obj_to_node g 2 = Some 1 \<and>
        leading_to_obj sched2 (SubGraph_init g) 2 = Some (Inl IndexError)
    | _ \<Rightarrow> False)"
  by (simp add: graph_defs subgraph_defs stone_objects_def)

text \<open>
  C9, the code at the failing input: node 1 (the natural object B) has the mode
  \<open>NO_PARENTS\<close> and the incoming edge 1; \<open>_edges_ignored_by_no_parent_nodes\<close>
  returns the set with edge 1, but after \<open>leading_to_obj\<close> the set of ignored edges
  is empty, and \<open>to_graphviz\<close> writes edge 1.
\<close>

theorem no_parents_edges_not_ignored:
  "(case Graph_init (\<lambda>n. 0) 5 (\<lambda>k n. 0) source_objects [bare_hands_a_d_b, craft_d_b_c] of
      Some (Inr g) \<Rightarrow>
        get_ignore_type (SubGraph_init g) 1 = NO_PARENTS \<and>
        incoming_edges g ! 1 = [1] \<and>
        edges_ignored_by_no_parent_nodes (SubGraph_init g) = {1} \<and>
        (case leading_to_obj (\<lambda>n. 0) (SubGraph_init g) 4 of
           Some (Inr sg) \<Rightarrow>
             ignored_edges sg = {} \<and>
             to_graphviz sg = Inr ([0, 1, 2, 3, 5], [1, 2, 3, 4, 5])
         | _ \<Rightarrow> False)
    | _ \<Rightarrow> False)"
  by (simp add: graph_defs subgraph_defs source_objects_def bare_hands_a_d_b_def craft_d_b_c_def
      eval_nat_numeral)

text \<open>
  C7, the code at the failing input: on the Stone scenario with Stone Block as the target,
  \<open>max_distance\<close> 0 and -1 leave no node ignored, and \<open>max_distance\<close> -2 leaves
  Stone (node 0) and the transition node (node 2) ignored: the closure is the target
  alone.
\<close>

theorem negative_max_distance_cuts_closure:
  "(case Graph_init sched (Suc (Suc (Suc fuel))) sched' stone_objects [bare_hands_stone] of
      Some (Inr g) \<Rightarrow>
        map_option (map_sum id ignored_nodes)
          (leading_to_obj s0 ((SubGraph_init g)\<lparr>max_distance := 0\<rparr>) 2) = Some (Inr {}) \<and>
        map_option (map_sum id ignored_nodes)
          (leading_to_obj s1 ((SubGraph_init g)\<lparr>max_distance := - 1\<rparr>) 2) = Some (Inr {}) \<and>
        map_option (map_sum id ignored_nodes)
          (leading_to_obj s2 ((SubGraph_init g)\<lparr>max_distance := - 2\<rparr>) 2) = Some (Inr {0, 2})
    | _ \<Rightarrow> False)"
  by (simp add: graph_defs subgraph_defs stone_objects_def bare_hands_stone_def numeral_2_eq_2)





section \<open>The propagation, step by step\<close>









lemma update_evolves:
  "update_complexity n inc = Inr (n', b) \<Longrightarrow> 0 \<le> inc \<Longrightarrow> evolves n n'"
  by (cases n) (auto split: if_splits)



















section \<open>The propagation terminates\<close>





section \<open>What the propagation leaves behind\<close>
















section \<open>The propagation on a settled graph\<close>








section \<open>The graphs that the constructor builds\<close>

















section \<open>The propagation on the graphs of the constructor\<close>











end
